theory Spec2Isabelle
  imports Complex_Main
begin

section \<open>Numbers\<close>

text \<open>
  A JavaScript number is an IEEE-754 binary64 value. A finite one is modelled by the real
  it stands for, and an arithmetic operation by the exact operation followed by rounding
  to the nearest double, ties to the even significand. \<open>binade x\<close> is the exponent \<open>e\<close>
  with \<open>2^e \<le> |x| < 2^(e+1)\<close>, kept within the normal range (below it the subnormal
  spacing applies); neighbouring doubles of that binade are \<open>ulp x\<close> apart.
\<close>

definition binades :: "real \<Rightarrow> int set" where
  "binades x = insert (- 1022) {e \<in> {- 1022..1023}. 2 powi e \<le> \<bar>x\<bar>}"

definition binade :: "real \<Rightarrow> int" where
  "binade x = Max (binades x)"

definition ulp :: "real \<Rightarrow> real" where
  "ulp x = 2 powi (binade x - 52)"

definition round_half_even :: "real \<Rightarrow> int" where
  "round_half_even y =
     (let f = \<lfloor>y\<rfloor>; d = y - of_int f
      in if d < 1 / 2 then f else if 1 / 2 < d then f + 1 else if even f then f else f + 1)"

definition to_double :: "real \<Rightarrow> real" where
  "to_double x = ulp x * of_int (round_half_even (x / ulp x))"




section \<open>JavaScript values\<close>

text \<open>
  The frontend is dynamically typed: action payloads, HTTP response bodies and the fields
  of the application state hold arbitrary JavaScript values. They are modelled by one
  datatype. \<open>JNum x\<close> is the finite double of value \<open>x\<close> (the literal \<^verbatim>\<open>0.7\<close> is
  \<open>JNum (to_double (7 / 10))\<close>; \<^verbatim>\<open>NaN\<close> and the infinities are left out); an object is
  the list of its own enumerable properties in insertion order.
\<close>

datatype jsval =
    JUndefined
  | JNull
  | JBool bool
  | JNum real
  | JStr string
  | JArr "jsval list"
  | JObj "(string \<times> jsval) list"

text \<open>ToBoolean: what \<^verbatim>\<open>if (v)\<close>, \<^verbatim>\<open>!v\<close> and \<^verbatim>\<open>v || w\<close> test.\<close>

fun truthy :: "jsval \<Rightarrow> bool" where
  "truthy JUndefined = False"
| "truthy JNull = False"
| "truthy (JBool b) = b"
| "truthy (JNum x) = (x \<noteq> 0)"
| "truthy (JStr s) = (s \<noteq> [])"
| "truthy (JArr _) = True"
| "truthy (JObj _) = True"

text \<open>
  Property read \<^verbatim>\<open>v.k\<close> for the named data properties the frontend reads
  (\<^verbatim>\<open>filepath\<close>, \<^verbatim>\<open>success\<close>, \<^verbatim>\<open>csv_data\<close> and the like; not indices or
  built-in properties such as \<^verbatim>\<open>length\<close>). Reading from \<^verbatim>\<open>undefined\<close> or
  \<^verbatim>\<open>null\<close> throws a TypeError (\<open>None\<close>); a property that is absent reads as
  \<^verbatim>\<open>undefined\<close>. The keys of an object are distinct.
\<close>

fun get_prop :: "jsval \<Rightarrow> string \<Rightarrow> jsval option" where
  "get_prop JUndefined k = None"
| "get_prop JNull k = None"
| "get_prop (JObj kvs) k = Some (case map_of kvs k of None \<Rightarrow> JUndefined | Some v \<Rightarrow> v)"
| "get_prop v k = Some JUndefined"

text \<open>
  Writing property \<open>k\<close> of an object literal under construction: an existing key keeps
  its position and takes the new value, a new key is appended. (An engine lists
  integer-like keys before the others; the order of keys plays no part below.)
\<close>

fun set_prop :: "string \<Rightarrow> jsval \<Rightarrow> (string \<times> jsval) list \<Rightarrow> (string \<times> jsval) list" where
  "set_prop k v [] = [(k, v)]"
| "set_prop k v ((k', v') # kvs) =
     (if k = k' then (k, v) # kvs else (k', v') # set_prop k v kvs)"

text \<open>
  The own enumerable properties that a spread \<^verbatim>\<open>...v\<close> copies into an object
  literal: those of an object; none for \<^verbatim>\<open>undefined\<close>, \<^verbatim>\<open>null\<close>, booleans and
  numbers; the indexed elements of an array and the indexed characters of a string.
\<close>

fun nat_to_digits :: "nat \<Rightarrow> string" where
  "nat_to_digits n =
     (if n < 10 then [char_of (48 + n)]
      else nat_to_digits (n div 10) @ [char_of (48 + n mod 10)])"

declare nat_to_digits.simps [simp del]

fun own_props :: "jsval \<Rightarrow> (string \<times> jsval) list" where
  "own_props (JObj kvs) = kvs"
| "own_props (JArr xs) = map (\<lambda>i. (nat_to_digits i, xs ! i)) [0..<length xs]"
| "own_props (JStr s) = map (\<lambda>i. (nat_to_digits i, JStr [s ! i])) [0..<length s]"
| "own_props v = []"

definition spread :: "(string \<times> jsval) list \<Rightarrow> jsval \<Rightarrow> (string \<times> jsval) list" where
  "spread acc v = foldl (\<lambda>obj (k, x). set_prop k x obj) acc (own_props v)"

section \<open>Application state and reducer (context/AppContext.js)\<close>

record app_state =
  uploadedFile :: jsval
  processingStatus :: jsval
  extractionResults :: jsval
  accuracyMetrics :: jsval
  currentStep :: jsval
  totalSteps :: jsval
  error :: jsval
  processingProgress :: jsval

definition initialState :: app_state where
  "initialState =
     \<lparr> uploadedFile = JNull,
       processingStatus = JStr ''idle'',
       extractionResults = JNull,
       accuracyMetrics = JNull,
       currentStep = JNum 0,
       totalSteps = JNum 4,
       error = JNull,
       processingProgress =
         JObj [(''ocr'', JNum 0), (''tableDetection'', JNum 0),
               (''validation'', JNum 0), (''csvGeneration'', JNum 0)] \<rparr>"

record action =
  type :: string
  payload :: jsval

text \<open>The \<^verbatim>\<open>switch\<close> of \<^verbatim>\<open>appReducer\<close>, case by case in the order of the source.\<close>

definition appReducer :: "app_state \<Rightarrow> action \<Rightarrow> app_state" where
  "appReducer state a =
     (if type a = ''SET_UPLOADED_FILE'' then
        state\<lparr>uploadedFile := payload a, processingStatus := JStr ''uploading''\<rparr>
      else if type a = ''SET_PROCESSING_STATUS'' then
        state\<lparr>processingStatus := payload a\<rparr>
      else if type a = ''SET_EXTRACTION_RESULTS'' then
        state\<lparr>extractionResults := payload a, processingStatus := JStr ''completed''\<rparr>
      else if type a = ''SET_ACCURACY_METRICS'' then
        state\<lparr>accuracyMetrics := payload a\<rparr>
      else if type a = ''SET_CURRENT_STEP'' then
        state\<lparr>currentStep := payload a\<rparr>
      else if type a = ''SET_ERROR'' then
        state\<lparr>error := payload a, processingStatus := JStr ''error''\<rparr>
      else if type a = ''SET_PROCESSING_PROGRESS'' then
        state\<lparr>processingProgress :=
                JObj (spread (spread [] (processingProgress state)) (payload a))\<rparr>
      else if type a = ''RESET_STATE'' then
        initialState
      else state)"

definition handled_types :: "string list" where
  "handled_types =
     [''SET_UPLOADED_FILE'', ''SET_PROCESSING_STATUS'', ''SET_EXTRACTION_RESULTS'',
      ''SET_ACCURACY_METRICS'', ''SET_CURRENT_STEP'', ''SET_ERROR'',
      ''SET_PROCESSING_PROGRESS'', ''RESET_STATE'']"

section \<open>The upload page (components/DocumentUpload.js)\<close>

text \<open>The options handed to \<^verbatim>\<open>useDropzone\<close>, as written in the source.\<close>

record dropzone_options =
  accept :: "(string \<times> string list) list"
  multiple :: bool
  maxSize :: nat

definition dropzoneOptions :: dropzone_options where
  "dropzoneOptions =
     \<lparr> accept = [(''application/pdf'', [''.pdf'']),
                 (''image/*'', [''.png'', ''.jpg'', ''.jpeg'', ''.tiff'', ''.bmp''])],
       multiple = False,
       maxSize = 50 * 1024 * 1024 \<rparr>"

text \<open>
  \<^verbatim>\<open>acceptedFiles[0]\<close>: the first element, \<^verbatim>\<open>undefined\<close> on an empty array.
\<close>

fun first_elem :: "jsval list \<Rightarrow> jsval" where
  "first_elem [] = JUndefined"
| "first_elem (x # xs) = x"

text \<open>
  \<^verbatim>\<open>onDrop\<close> is run by the dropzone with the files it accepted. The component's own
  \<^verbatim>\<open>uploadedFile\<close> (a \<^verbatim>\<open>useState\<close> cell, initially \<^verbatim>\<open>null\<close>) is passed in and
  returned; the second component is the list of actions dispatched to the reducer.
\<close>

definition onDrop :: "jsval list \<Rightarrow> jsval \<Rightarrow> jsval \<times> action list" where
  "onDrop acceptedFiles uploaded =
     (let file = first_elem acceptedFiles in
      if truthy file
      then (file, [\<lparr>type = ''SET_UPLOADED_FILE'', payload = file\<rparr>])
      else (uploaded, []))"

text \<open>The store after a list of dispatched actions.\<close>

definition dispatch_all :: "app_state \<Rightarrow> action list \<Rightarrow> app_state" where
  "dispatch_all s as = foldl appReducer s as"

subsection \<open>handleProcess\<close>

text \<open>
  What \<^verbatim>\<open>handleProcess\<close> does to the outside, in order: calls of the state setter,
  dispatched actions, HTTP posts (the path below \<^verbatim>\<open>API_BASE_URL\<close> and the request
  body), navigations, the console and the toast.
\<close>

datatype event =
    SetIsProcessing bool
  | Dispatch action
  | Post string jsval
  | Navigate string
  | ConsoleError string
  | ToastError string

text \<open>
  An awaited \<^verbatim>\<open>axios.post\<close> either rejects with an error (its \<^verbatim>\<open>message\<close>) or
  resolves with a response, of which the code reads \<^verbatim>\<open>data\<close> only.
\<close>

datatype response = Rejected string | Resolved jsval

definition js_or :: "jsval \<Rightarrow> jsval \<Rightarrow> jsval" where
  "js_or a b = (if truthy a then a else b)"

text \<open>
  The message of the TypeError that a property read from \<^verbatim>\<open>undefined\<close> or \<^verbatim>\<open>null\<close>
  throws (the wording is the engine's; V8's is used).
\<close>

definition TypeError_message :: "jsval \<Rightarrow> string \<Rightarrow> string" where
  "TypeError_message v k =
     ''Cannot read properties of '' @ (if v = JNull then ''null'' else ''undefined'')
       @ '' (reading '' @ [CHR 0x27] @ k @ [CHR 0x27] @ '')''"

text \<open>
  \<^verbatim>\<open>new Error(v).message\<close> is \<^verbatim>\<open>String(v)\<close>: \<open>v\<close> itself when it is a string. The
  conversion of other values is the engine's and is a parameter of the model.
\<close>

definition Error_message :: "(jsval \<Rightarrow> string) \<Rightarrow> jsval \<Rightarrow> string" where
  "Error_message toString v = (case v of JStr s \<Rightarrow> s | _ \<Rightarrow> toString v)"

text \<open>A property read from a value already known not to be \<^verbatim>\<open>undefined\<close> or \<^verbatim>\<open>null\<close>.\<close>

definition read_prop :: "jsval \<Rightarrow> string \<Rightarrow> jsval" where
  "read_prop v k = (case get_prop v k of None \<Rightarrow> JUndefined | Some x \<Rightarrow> x)"

definition extract_request :: "jsval \<Rightarrow> jsval" where
  "extract_request filepath =
     JObj [(''filepath'', filepath),
           (''options'', JObj [(''enable_preview'', JBool True),
                               (''confidence_threshold'', JNum (to_double (7 / 10)))])]"

text \<open>
  The \<^verbatim>\<open>try\<close> block: the events it produced, and the message of the error it threw,
  if it threw. The second response is consulted only when the second request is sent.
\<close>

definition try_block ::
  "(jsval \<Rightarrow> string) \<Rightarrow> jsval \<Rightarrow> response \<Rightarrow> response \<Rightarrow> event list \<times> string option" where
  "try_block toString uploaded uploadResponse extractionResponse =
     (let ev0 = [Post ''/upload'' (JObj [(''file'', uploaded)])] in
      case uploadResponse of
        Rejected m \<Rightarrow> (ev0, Some m)
      | Resolved udata \<Rightarrow>
          (case get_prop udata ''filepath'' of
             None \<Rightarrow> (ev0, Some (TypeError_message udata ''filepath''))
           | Some filepath \<Rightarrow>
               if truthy filepath then
                 (let ev1 = ev0 @
                        [Dispatch \<lparr>type = ''SET_PROCESSING_STATUS'', payload = JStr ''processing''\<rparr>,
                         Navigate ''/processing'',
                         Post ''/extract'' (extract_request filepath)] in
                  case extractionResponse of
                    Rejected m \<Rightarrow> (ev1, Some m)
                  | Resolved edata \<Rightarrow>
                      (case get_prop edata ''success'' of
                         None \<Rightarrow> (ev1, Some (TypeError_message edata ''success''))
                       | Some ok \<Rightarrow>
                           if truthy ok then
                             (ev1 @
                                [Dispatch \<lparr>type = ''SET_EXTRACTION_RESULTS'', payload = edata\<rparr>,
                                 Dispatch \<lparr>type = ''SET_ACCURACY_METRICS'',
                                   payload = JObj
                                     [(''accuracy_rate'', read_prop edata ''accuracy_rate''),
                                      (''total_cells'', read_prop edata ''total_cells''),
                                      (''validation_errors'', read_prop edata ''validation_errors'')]\<rparr>,
                                 Navigate ''/results''], None)
                           else
                             (ev1, Some (Error_message toString
                                (js_or (read_prop edata ''error'') (JStr ''Extraction failed''))))))
               else (ev0, None)))"

definition catch_block :: "string \<Rightarrow> event list" where
  "catch_block message =
     [ConsoleError message,
      Dispatch \<lparr>type = ''SET_ERROR'', payload = JStr message\<rparr>,
      ToastError (''Processing failed: '' @ message)]"

definition handleProcess ::
  "(jsval \<Rightarrow> string) \<Rightarrow> jsval \<Rightarrow> response \<Rightarrow> response \<Rightarrow> event list" where
  "handleProcess toString uploaded uploadResponse extractionResponse =
     (if \<not> truthy uploaded then []
      else
        [SetIsProcessing True,
         Dispatch \<lparr>type = ''SET_PROCESSING_STATUS'', payload = JStr ''uploading''\<rparr>]
        @ (case try_block toString uploaded uploadResponse extractionResponse of
             (evs, None) \<Rightarrow> evs
           | (evs, Some message) \<Rightarrow> evs @ catch_block message)
        @ [SetIsProcessing False])"

text \<open>How many times a run dispatched an action of a given type, the posts it sent.\<close>

fun is_dispatch :: "string \<Rightarrow> event \<Rightarrow> bool" where
  "is_dispatch t (Dispatch a) = (type a = t)"
| "is_dispatch t e = False"

definition dispatch_count :: "string \<Rightarrow> event list \<Rightarrow> nat" where
  "dispatch_count t evs = length (filter (is_dispatch t) evs)"

fun posts_to :: "string \<Rightarrow> event list \<Rightarrow> jsval list" where
  "posts_to url [] = []"
| "posts_to url (Post u body # evs) =
     (if u = url then body # posts_to url evs else posts_to url evs)"
| "posts_to url (e # evs) = posts_to url evs"

fun dispatched_payloads :: "string \<Rightarrow> event list \<Rightarrow> jsval list" where
  "dispatched_payloads t [] = []"
| "dispatched_payloads t (Dispatch a # evs) =
     (if type a = t then payload a # dispatched_payloads t evs else dispatched_payloads t evs)"
| "dispatched_payloads t (e # evs) = dispatched_payloads t evs"

text \<open>The \<^verbatim>\<open>toString\<close> of a plain object, used where a concrete conversion is needed.\<close>

definition objectToString :: "jsval \<Rightarrow> string" where
  "objectToString v = ''[object Object]''"

section \<open>The results page (components/ResultsView.js)\<close>

text \<open>
  The names that \<^verbatim>\<open>ResultsView\<close> destructures from \<^verbatim>\<open>extractionResults\<close>, and the
  values it gets (the component returns before this when \<^verbatim>\<open>extractionResults\<close> is falsy).
  The model of the page stops at the destructuring and at \<^verbatim>\<open>formatCSVData\<close>: the JSX
  after them is not modelled. It names a component \<^verbatim>\<open>Shield\<close> that the file does not
  import, so rendering a result whose \<^verbatim>\<open>validation_results\<close> is not empty throws a
  ReferenceError before \<^verbatim>\<open>formatCSVData\<close> is called.
\<close>

definition ResultsView_fields :: "string list" where
  "ResultsView_fields =
     [''accuracy_rate'', ''total_tables'', ''total_cells'', ''validation_errors'',
      ''csv_data'', ''validation_results'']"

definition ResultsView_destructure :: "jsval \<Rightarrow> (string \<times> jsval) list" where
  "ResultsView_destructure results =
     map (\<lambda>k. (k, read_prop results k)) ResultsView_fields"

text \<open>
  \<^verbatim>\<open>s.split(c)\<close> for a one-character separator: the pieces between occurrences of
  \<open>c\<close>; always at least one piece.
\<close>

fun split_on :: "char \<Rightarrow> string \<Rightarrow> string list" where
  "split_on c [] = [[]]"
| "split_on c (x # xs) =
     (if x = c then [] # split_on c xs
      else (case split_on c xs of
              [] \<Rightarrow> [[x]]
            | piece # pieces \<Rightarrow> (x # piece) # pieces))"

definition dquote :: char where
  "dquote = CHR 0x22"

definition newline :: char where
  "newline = CHR 0x0A"

definition comma :: char where
  "comma = CHR '',''"

text \<open>
  \<^verbatim>\<open>formatCSVData\<close> on the destructured \<^verbatim>\<open>csv_data\<close>: the empty array for a falsy
  value; for a string, its lines split at commas with every double quote removed. A
  truthy value that is not a string has no \<^verbatim>\<open>split\<close> method: a TypeError (\<open>None\<close>).
\<close>

definition formatCSVData :: "jsval \<Rightarrow> string list list option" where
  "formatCSVData csv_data =
     (if \<not> truthy csv_data then Some []
      else case csv_data of
        JStr s \<Rightarrow>
          Some (map (\<lambda>line. map (\<lambda>cell. filter (\<lambda>ch. ch \<noteq> dquote) cell) (split_on comma line))
                    (split_on newline s))
      | _ \<Rightarrow> None)"

section \<open>The processing page (components/ProcessingStatus.js)\<close>







text \<open>All the actions that a run dispatched, in order.\<close>

fun dispatched :: "event list \<Rightarrow> action list" where
  "dispatched [] = []"
| "dispatched (Dispatch a # evs) = a # dispatched evs"
| "dispatched (e # evs) = dispatched evs"

text \<open>An action that does not replace the stored extraction result.\<close>

definition keeps_results :: "action \<Rightarrow> bool" where
  "keeps_results a = (type a \<noteq> ''SET_EXTRACTION_RESULTS'' \<and> type a \<noteq> ''RESET_STATE'')"

section \<open>Sample data\<close>

text \<open>Concrete inputs at which the statements below are evaluated.\<close>

definition sample_file :: jsval where
  "sample_file = JObj [(''name'', JStr ''scan.pdf''), (''size'', JNum 2048)]"

definition upload_ok :: response where
  "upload_ok = Resolved (JObj [(''message'', JStr ''File uploaded successfully''),
                               (''filename'', JStr ''scan.pdf''),
                               (''filepath'', JStr ''uploads/scan.pdf'')])"

text \<open>A response of the shape the README documents for \<^verbatim>\<open>POST /extract\<close>.\<close>

definition extraction_ok :: jsval where
  "extraction_ok =
     JObj [(''success'', JBool True), (''accuracy_rate'', JNum (to_double (995 / 1000))),
           (''total_tables'', JNum 3), (''total_cells'', JNum 150),
           (''validation_errors'', JNum 2),
           (''csv_data'', JStr (''h1,h2'' @ [newline] @ ''1,2'')),
           (''validation_results'', JArr [])]"

text \<open>
  A result object with exactly the six fields that the specification lists for an
  ExtractionResult, the CSV text under \<^verbatim>\<open>csv_text\<close>.
\<close>

definition spec_result :: jsval where
  "spec_result =
     JObj [(''accuracy_rate'', JNum 1), (''total_tables'', JNum 1), (''total_cells'', JNum 2),
           (''validation_errors'', JNum 0), (''csv_text'', JStr ''a,b''),
           (''validation_results'', JArr [])]"

text \<open>An answer that carries nothing but the \<^verbatim>\<open>success\<close> flag.\<close>

definition success_only :: jsval where
  "success_only = JObj [(''success'', JBool True)]"


text \<open>The option names that the specification gives for the extraction interface.\<close>

definition spec_option_keys :: "string list" where
  "spec_option_keys = [''confidence_threshold'', ''min_table_area'', ''enabled_engines'']"

text \<open>The option names of a request body.\<close>

definition option_keys :: "jsval \<Rightarrow> string list" where
  "option_keys body = map fst (own_props (read_prop body ''options''))"

text \<open>
  The upload either failed or answered with a usable \<^verbatim>\<open>filepath\<close>: the outcomes for
  which \<^verbatim>\<open>handleProcess\<close> has a branch.
\<close>

fun upload_settled :: "response \<Rightarrow> bool" where
  "upload_settled (Rejected m) = True"
| "upload_settled (Resolved d) =
     (case get_prop d ''filepath'' of None \<Rightarrow> True | Some fp \<Rightarrow> truthy fp)"

section \<open>The extraction core, from the specification\<close>

text \<open>
  The backend (\<^verbatim>\<open>backend/app.py\<close>, \<^verbatim>\<open>ocr_engine.py\<close>, \<^verbatim>\<open>data_validator.py\<close>,
  \<^verbatim>\<open>csv_generator.py\<close>) is named by the README but is not among the sources. The
  definitions of this section follow the words of the specification.
\<close>

subsection \<open>CSV Generator\<close>

text \<open>
  Modelled from the spec: the serialisation step of the CSV Generator
  (\<^verbatim>\<open>csv_generator.py\<close> is missing). "Any cell containing a comma, quote, or newline
  is wrapped in double quotes with internal quotes doubled"; cells of a row are joined
  by commas, rows by newlines, with no newline after the last row.
\<close>

definition needs_quoting :: "string \<Rightarrow> bool" where
  "needs_quoting cell = (comma \<in> set cell \<or> dquote \<in> set cell \<or> newline \<in> set cell)"

definition quote_cell :: "string \<Rightarrow> string" where
  "quote_cell cell =
     (if needs_quoting cell
      then [dquote] @ concat (map (\<lambda>ch. if ch = dquote then [dquote, dquote] else [ch]) cell)
             @ [dquote]
      else cell)"

fun join :: "char \<Rightarrow> string list \<Rightarrow> string" where
  "join c [] = []"
| "join c [x] = x"
| "join c (x # y # ys) = x @ [c] @ join c (y # ys)"

definition csv_serialize :: "string list list \<Rightarrow> string" where
  "csv_serialize matrix = join newline (map (\<lambda>row. join comma (map quote_cell row)) matrix)"

text \<open>A matrix with at least one row, no empty row and no cell that needs quoting.\<close>

definition plain_matrix :: "string list list \<Rightarrow> bool" where
  "plain_matrix matrix =
     (matrix \<noteq> []
      \<and> list_all (\<lambda>row. row \<noteq> [] \<and> list_all (\<lambda>cell. \<not> needs_quoting cell) row) matrix)"

subsection \<open>Accuracy rate\<close>




subsection \<open>Cell and error counts\<close>












subsection \<open>Consensus Engine\<close>

text \<open>
  Modelled from the spec: the Consensus Engine (\<^verbatim>\<open>ocr_engine.py\<close> is missing). An
  OcrToken is "text, bbox (x,y,w,h), confidence in [0,1], engine id"; the field
  \<open>tok_text\<close> is the specification's \<^verbatim>\<open>text\<close>. Tokens are clustered "by bounding-box
  overlap (Intersection-over-Union above a fixed threshold, default 0.5) across engines",
  by a "greedy nearest-box merge in spatial order (top-to-bottom, left-to-right)": a token
  joins the first cluster whose first token it overlaps beyond the threshold, and opens
  a cluster otherwise.
\<close>

record OcrToken =
  tok_text :: string
  bbox :: "real \<times> real \<times> real \<times> real"
  confidence :: real
  engine_id :: nat

record ConsensusToken =
  cons_text :: string
  cons_confidence :: real
  agreement_count :: nat
  contributing_engines :: "nat list"

fun box_area :: "real \<times> real \<times> real \<times> real \<Rightarrow> real" where
  "box_area (x, y, w, h) = w * h"

fun intersection_area ::
  "real \<times> real \<times> real \<times> real \<Rightarrow> real \<times> real \<times> real \<times> real \<Rightarrow> real" where
  "intersection_area (x1, y1, w1, h1) (x2, y2, w2, h2) =
     max 0 (min (x1 + w1) (x2 + w2) - max x1 x2) * max 0 (min (y1 + h1) (y2 + h2) - max y1 y2)"

definition iou :: "real \<times> real \<times> real \<times> real \<Rightarrow> real \<times> real \<times> real \<times> real \<Rightarrow> real" where
  "iou a b =
     (let inter = intersection_area a b; union_area = box_area a + box_area b - inter
      in if union_area \<le> 0 then 0 else inter / union_area)"

definition iou_threshold :: real where
  "iou_threshold = 1 / 2"

fun spatial_le :: "OcrToken \<Rightarrow> OcrToken \<Rightarrow> bool" where
  "spatial_le s t =
     (case (bbox s, bbox t) of
        ((x1, y1, _, _), (x2, y2, _, _)) \<Rightarrow> y1 < y2 \<or> (y1 = y2 \<and> x1 \<le> x2))"

fun insert_spatial :: "OcrToken \<Rightarrow> OcrToken list \<Rightarrow> OcrToken list" where
  "insert_spatial t [] = [t]"
| "insert_spatial t (u # us) = (if spatial_le t u then t # u # us else u # insert_spatial t us)"

definition spatial_order :: "OcrToken list \<Rightarrow> OcrToken list" where
  "spatial_order ts = foldr insert_spatial ts []"

fun merge_token :: "real \<Rightarrow> OcrToken \<Rightarrow> OcrToken list list \<Rightarrow> OcrToken list list" where
  "merge_token thr t [] = [[t]]"
| "merge_token thr t ([] # cs) = [] # merge_token thr t cs"
| "merge_token thr t ((seed # members) # cs) =
     (if thr < iou (bbox seed) (bbox t) then (seed # members @ [t]) # cs
      else (seed # members) # merge_token thr t cs)"

definition cluster_tokens :: "real \<Rightarrow> OcrToken list \<Rightarrow> OcrToken list list" where
  "cluster_tokens thr ts = foldl (\<lambda>cs t. merge_token thr t cs) [] (spatial_order ts)"

text \<open>
  Modelled from the spec: the text of a cluster is resolved "by weighted vote: weight =
  per-token confidence x a per-engine reliability prior". The specification's rules for
  ties are not modelled: among texts of equal weight the one met first wins.
\<close>

definition vote_weight :: "(nat \<Rightarrow> real) \<Rightarrow> OcrToken list \<Rightarrow> string \<Rightarrow> real" where
  "vote_weight prior cluster s =
     sum_list (map (\<lambda>t. confidence t * prior (engine_id t))
                   (filter (\<lambda>t. tok_text t = s) cluster))"

fun best_text :: "(string \<Rightarrow> real) \<Rightarrow> string list \<Rightarrow> string" where
  "best_text weight [] = []"
| "best_text weight [s] = s"
| "best_text weight (s # s' # ss) =
     (let b = best_text weight (s' # ss) in if weight b > weight s then b else s)"

definition consensus_text :: "(nat \<Rightarrow> real) \<Rightarrow> OcrToken list \<Rightarrow> string" where
  "consensus_text prior cluster =
     best_text (vote_weight prior cluster) (remdups (map tok_text cluster))"

text \<open>
  Modelled from the spec: "the cluster's consensus confidence = max single-engine
  confidence boosted by an agreement bonus proportional to agreement_count /
  total_engines_run, capped at 1.0"; the agreement count is the "number of distinct OCR
  backends whose output contributed". The factor of the bonus is not given and is the
  parameter \<open>bonus\<close>.
\<close>

fun max_confidence :: "OcrToken list \<Rightarrow> real" where
  "max_confidence [] = 0"
| "max_confidence [t] = confidence t"
| "max_confidence (t # u # us) = max (confidence t) (max_confidence (u # us))"

definition engines_of :: "OcrToken list \<Rightarrow> nat list" where
  "engines_of cluster = remdups (map engine_id cluster)"

definition consensus_confidence :: "real \<Rightarrow> nat \<Rightarrow> OcrToken list \<Rightarrow> real" where
  "consensus_confidence bonus total_engines_run cluster =
     min 1 (max_confidence cluster
            + bonus * (real (length (engines_of cluster)) / real total_engines_run))"

definition consensus_token ::
  "real \<Rightarrow> (nat \<Rightarrow> real) \<Rightarrow> nat \<Rightarrow> OcrToken list \<Rightarrow> ConsensusToken" where
  "consensus_token bonus prior total_engines_run cluster =
     \<lparr> cons_text = consensus_text prior cluster,
       cons_confidence = consensus_confidence bonus total_engines_run cluster,
       agreement_count = length (engines_of cluster),
       contributing_engines = engines_of cluster \<rparr>"

definition consensus_engine ::
  "real \<Rightarrow> (nat \<Rightarrow> real) \<Rightarrow> nat \<Rightarrow> OcrToken list \<Rightarrow> ConsensusToken list" where
  "consensus_engine bonus prior total_engines_run tokens =
     map (consensus_token bonus prior total_engines_run) (cluster_tokens iou_threshold tokens)"

text \<open>The default reliability prior: equal for every engine.\<close>

definition equal_prior :: "nat \<Rightarrow> real" where
  "equal_prior e = 1"

text \<open>
  The scenario of the specification: three engines read \<^verbatim>\<open>Total\<close> at near-identical
  boxes, with confidences 0.9, 0.85 and 0.4.
\<close>

definition scenario_tokens :: "OcrToken list" where
  "scenario_tokens =
     [\<lparr>tok_text = ''Total'', bbox = (100, 50, 80, 20), confidence = 9 / 10, engine_id = 0\<rparr>,
      \<lparr>tok_text = ''Total'', bbox = (101, 50, 80, 20), confidence = 85 / 100, engine_id = 1\<rparr>,
      \<lparr>tok_text = ''Total'', bbox = (100, 51, 79, 20), confidence = 4 / 10, engine_id = 2\<rparr>]"

section \<open>Rounding to a double\<close>





























section \<open>Properties of the reducer\<close>

lemma appReducer_unhandled:
  "type a \<notin> set handled_types \<Longrightarrow> appReducer s a = s"
  by (simp add: appReducer_def handled_types_def)

text \<open>
  Claim C8. For every state \<open>s\<close> and payload \<open>p\<close>, reducing the action
  \<^verbatim>\<open>{type: 'SET_ERROR', payload: p}\<close> yields \<open>s\<close> with \<open>error\<close> set to \<open>p\<close> and
  \<open>processingStatus\<close> set to \<^verbatim>\<open>'error'\<close>, every other field as in \<open>s\<close>; and an action
  whose type is none of the eight handled types leaves the state as it is.
\<close>

theorem appReducer_SET_ERROR_frame:
  "appReducer s \<lparr>type = ''SET_ERROR'', payload = p\<rparr>
     = s\<lparr>error := p, processingStatus := JStr ''error''\<rparr>
   \<and> error (appReducer s \<lparr>type = ''SET_ERROR'', payload = p\<rparr>) = p
   \<and> processingStatus (appReducer s \<lparr>type = ''SET_ERROR'', payload = p\<rparr>) = JStr ''error''
   \<and> uploadedFile (appReducer s \<lparr>type = ''SET_ERROR'', payload = p\<rparr>) = uploadedFile s
   \<and> extractionResults (appReducer s \<lparr>type = ''SET_ERROR'', payload = p\<rparr>) = extractionResults s
   \<and> accuracyMetrics (appReducer s \<lparr>type = ''SET_ERROR'', payload = p\<rparr>) = accuracyMetrics s
   \<and> currentStep (appReducer s \<lparr>type = ''SET_ERROR'', payload = p\<rparr>) = currentStep s
   \<and> totalSteps (appReducer s \<lparr>type = ''SET_ERROR'', payload = p\<rparr>) = totalSteps s
   \<and> processingProgress (appReducer s \<lparr>type = ''SET_ERROR'', payload = p\<rparr>) = processingProgress s
   \<and> (type a \<notin> set handled_types \<longrightarrow> appReducer s a = s)"
  by (simp add: appReducer_def handled_types_def)

theorem appReducer_SET_ERROR_frame_witness:
  "type \<lparr>type = ''NOT_AN_ACTION'', payload = JNum 1\<rparr> \<notin> set handled_types
   \<and> appReducer initialState \<lparr>type = ''NOT_AN_ACTION'', payload = JNum 1\<rparr> = initialState
   \<and> error (appReducer initialState \<lparr>type = ''SET_ERROR'', payload = JStr ''boom''\<rparr>) = JStr ''boom''"
  using appReducer_SET_ERROR_frame
    [of initialState "JStr ''boom''" "\<lparr>type = ''NOT_AN_ACTION'', payload = JNum 1\<rparr>"]
  by (simp add: handled_types_def)

section \<open>Outcomes of handleProcess\<close>

text \<open>
  Claim C2: every extraction run ends with \<^verbatim>\<open>SET_EXTRACTION_RESULTS\<close> or with
  \<^verbatim>\<open>SET_ERROR\<close>. The code at a run with a file selected whose upload is answered
  without a \<^verbatim>\<open>filepath\<close>: the test \<^verbatim>\<open>if (uploadResponse.data.filepath)\<close> has no
  \<^verbatim>\<open>else\<close>, unlike the test of \<^verbatim>\<open>extractionResponse.data.success\<close> below it, so the
  run sends no extraction request and dispatches neither action.
\<close>

theorem handleProcess_missing_filepath:
  "truthy sample_file
   \<and> handleProcess objectToString sample_file (Resolved (JObj [])) (Resolved extraction_ok)
       = [SetIsProcessing True,
          Dispatch \<lparr>type = ''SET_PROCESSING_STATUS'', payload = JStr ''uploading''\<rparr>,
          Post ''/upload'' (JObj [(''file'', sample_file)]),
          SetIsProcessing False]
   \<and> dispatch_count ''SET_EXTRACTION_RESULTS''
        (handleProcess objectToString sample_file (Resolved (JObj [])) (Resolved extraction_ok)) = 0
   \<and> dispatch_count ''SET_ERROR''
        (handleProcess objectToString sample_file (Resolved (JObj [])) (Resolved extraction_ok)) = 0"
  by (simp add: handleProcess_def try_block_def Let_def sample_file_def dispatch_count_def)

text \<open>
  On every other run the claim holds: with a file selected and an upload that fails or
  answers with a usable \<^verbatim>\<open>filepath\<close>, exactly one of the two actions is dispatched. A
  run with no file selected (which the disabled button does not start) does nothing.
\<close>

lemma handleProcess_outcome:
  "(\<not> truthy f \<longrightarrow> handleProcess ts f up ex = [])
   \<and> (truthy f \<and> upload_settled up \<longrightarrow>
        dispatch_count ''SET_EXTRACTION_RESULTS'' (handleProcess ts f up ex)
        + dispatch_count ''SET_ERROR'' (handleProcess ts f up ex) = 1)"
  by (cases up; cases ex)
     (auto simp: handleProcess_def try_block_def dispatch_count_def catch_block_def Let_def
           split: option.splits response.splits)

section \<open>The extraction request\<close>

text \<open>
  Claim C4, as stated: every extraction request carries options of exactly the shape
  \<^verbatim>\<open>{confidence_threshold, min_table_area, enabled_engines}\<close>. The one request that a
  successful upload leads to carries \<^verbatim>\<open>enable_preview\<close> and \<^verbatim>\<open>confidence_threshold\<close>:
  one name the specification does not have, and two of its names missing.
\<close>

theorem extract_options_counterexample:
  "map option_keys (posts_to ''/extract''
      (handleProcess objectToString sample_file upload_ok (Resolved extraction_ok)))
     = [[''enable_preview'', ''confidence_threshold'']]
   \<and> ''enable_preview'' \<notin> set spec_option_keys
   \<and> ''min_table_area'' \<notin> set [''enable_preview'', ''confidence_threshold'']
   \<and> ''enabled_engines'' \<notin> set [''enable_preview'', ''confidence_threshold'']"
  by (simp add: handleProcess_def try_block_def Let_def sample_file_def upload_ok_def
      extraction_ok_def option_keys_def read_prop_def extract_request_def spec_option_keys_def)

lemma posts_extract_cases:
  "posts_to ''/extract'' (handleProcess ts f up ex) = []
   \<or> (\<exists>u fp. up = Resolved u \<and> get_prop u ''filepath'' = Some fp \<and> truthy fp \<and> truthy f
        \<and> posts_to ''/extract'' (handleProcess ts f up ex) = [extract_request fp])"
  by (cases up; cases ex)
     (auto simp: handleProcess_def try_block_def catch_block_def Let_def
           split: option.splits response.splits if_splits)

text \<open>
  Claim C4, amended. Every extraction request that \<^verbatim>\<open>handleProcess\<close> sends has the body
  \<^verbatim>\<open>{filepath, options}\<close>, where \<^verbatim>\<open>filepath\<close> is the truthy \<^verbatim>\<open>filepath\<close> of the upload
  response and \<^verbatim>\<open>options\<close> is \<^verbatim>\<open>{enable_preview: true, confidence_threshold: 0.7}\<close>;
  \<^verbatim>\<open>min_table_area\<close> and \<^verbatim>\<open>enabled_engines\<close> are not sent.
\<close>

theorem extract_request_sent:
  "\<forall>body \<in> set (posts_to ''/extract'' (handleProcess ts f up ex)).
      (\<exists>u fp. up = Resolved u \<and> get_prop u ''filepath'' = Some fp \<and> truthy fp
         \<and> body = JObj [(''filepath'', fp),
                         (''options'', JObj [(''enable_preview'', JBool True),
                                             (''confidence_threshold'', JNum (to_double (7 / 10)))])])
      \<and> option_keys body = [''enable_preview'', ''confidence_threshold'']
      \<and> ''min_table_area'' \<notin> set (option_keys body)
      \<and> ''enabled_engines'' \<notin> set (option_keys body)"
  using posts_extract_cases [of ts f up ex]
  by (auto simp: extract_request_def option_keys_def read_prop_def)

theorem extract_request_sent_witness:
  "posts_to ''/extract''
      (handleProcess objectToString sample_file upload_ok (Resolved extraction_ok))
     = [JObj [(''filepath'', JStr ''uploads/scan.pdf''),
              (''options'', JObj [(''enable_preview'', JBool True),
                                  (''confidence_threshold'', JNum (to_double (7 / 10)))])]]
   \<and> get_prop (JObj [(''message'', JStr ''File uploaded successfully''),
                      (''filename'', JStr ''scan.pdf''),
                      (''filepath'', JStr ''uploads/scan.pdf'')]) ''filepath''
       = Some (JStr ''uploads/scan.pdf'')"
  using extract_request_sent
      [where ts = objectToString and f = sample_file and up = upload_ok
         and ex = "Resolved extraction_ok"]
  by (simp add: handleProcess_def try_block_def Let_def sample_file_def upload_ok_def
      extraction_ok_def extract_request_def)

section \<open>The extraction result at the frontend\<close>

lemma truthy_prop_obj:
  "truthy (read_prop d k) \<Longrightarrow> \<exists>kvs. d = JObj kvs \<and> k \<in> fst ` set kvs"
proof (cases d)
  case (JObj kvs)
  assume "truthy (read_prop d k)"
  with JObj obtain v where "map_of kvs k = Some v"
    by (auto simp: read_prop_def split: option.splits)
  then have "(k, v) \<in> set kvs" by (rule map_of_SomeD)
  then have "k \<in> fst ` set kvs" by force
  with JObj show ?thesis by simp
qed (simp_all add: read_prop_def)

lemma appReducer_keeps_results:
  "keeps_results a \<Longrightarrow> extractionResults (appReducer s a) = extractionResults s"
  by (simp add: appReducer_def keeps_results_def)

lemma dispatch_all_keeps_results:
  "list_all keeps_results later
   \<Longrightarrow> extractionResults (dispatch_all s later) = extractionResults s"
  unfolding dispatch_all_def
  by (induction later arbitrary: s) (simp_all add: appReducer_keeps_results)

lemma handleProcess_success_run:
  assumes "truthy f" "get_prop u ''filepath'' = Some fp" "truthy fp"
    "truthy (read_prop d ''success'')"
  shows "dispatched (handleProcess ts f (Resolved u) (Resolved d))
           = [\<lparr>type = ''SET_PROCESSING_STATUS'', payload = JStr ''uploading''\<rparr>,
              \<lparr>type = ''SET_PROCESSING_STATUS'', payload = JStr ''processing''\<rparr>,
              \<lparr>type = ''SET_EXTRACTION_RESULTS'', payload = d\<rparr>,
              \<lparr>type = ''SET_ACCURACY_METRICS'',
                payload = JObj [(''accuracy_rate'', read_prop d ''accuracy_rate''),
                                (''total_cells'', read_prop d ''total_cells''),
                                (''validation_errors'', read_prop d ''validation_errors'')]\<rparr>]"
  using assms
  by (cases d) (auto simp: handleProcess_def try_block_def Let_def read_prop_def
      split: option.splits)

lemma results_dispatched_cases:
  "dispatched_payloads ''SET_EXTRACTION_RESULTS'' (handleProcess ts f up ex) = []
   \<or> (\<exists>u fp d. up = Resolved u \<and> ex = Resolved d \<and> truthy f
         \<and> get_prop u ''filepath'' = Some fp \<and> truthy fp \<and> truthy (read_prop d ''success'')
         \<and> dispatched_payloads ''SET_EXTRACTION_RESULTS'' (handleProcess ts f up ex) = [d])"
  by (cases up; cases ex)
     (auto simp: handleProcess_def try_block_def catch_block_def Let_def read_prop_def
           split: option.splits response.splits if_splits)

text \<open>
  Claim C3, as stated: a successful extraction returns an object with exactly the fields
  \<^verbatim>\<open>accuracy_rate\<close>, \<^verbatim>\<open>total_tables\<close>, \<^verbatim>\<open>total_cells\<close>, \<^verbatim>\<open>validation_errors\<close>,
  \<^verbatim>\<open>csv_text\<close> and \<^verbatim>\<open>validation_results\<close>, the CSV output under \<^verbatim>\<open>csv_text\<close>. An
  answer of exactly that shape is not taken as a success: \<^verbatim>\<open>handleProcess\<close> finds no
  \<^verbatim>\<open>success\<close> in it and dispatches \<^verbatim>\<open>SET_ERROR\<close>, and the destructuring in
  \<^verbatim>\<open>ResultsView\<close> gets \<^verbatim>\<open>undefined\<close> for \<^verbatim>\<open>csv_data\<close>, which parses to no rows. An
  answer with the \<^verbatim>\<open>success\<close> flag and none of the six fields is taken as a success.
\<close>

theorem spec_result_counterexample:
  "map fst (own_props spec_result)
     = [''accuracy_rate'', ''total_tables'', ''total_cells'', ''validation_errors'',
        ''csv_text'', ''validation_results'']
   \<and> dispatched_payloads ''SET_EXTRACTION_RESULTS''
       (handleProcess objectToString sample_file upload_ok (Resolved spec_result)) = []
   \<and> dispatched_payloads ''SET_ERROR''
       (handleProcess objectToString sample_file upload_ok (Resolved spec_result))
        = [JStr ''Extraction failed'']
   \<and> map_of (ResultsView_destructure spec_result) ''csv_data'' = Some JUndefined
   \<and> formatCSVData (read_prop spec_result ''csv_data'') = Some []
   \<and> dispatched_payloads ''SET_EXTRACTION_RESULTS''
       (handleProcess objectToString sample_file upload_ok (Resolved success_only))
        = [success_only]"
  by (simp add: handleProcess_def try_block_def Let_def sample_file_def upload_ok_def
      spec_result_def read_prop_def catch_block_def js_or_def Error_message_def
      formatCSVData_def ResultsView_destructure_def ResultsView_fields_def success_only_def)

text \<open>
  Claim C3, amended. An answer to the extraction request is taken as a successful result
  exactly when its \<^verbatim>\<open>success\<close> field is truthy; no other field is required of it. The
  store then holds the response body as it was returned; \<^verbatim>\<open>ResultsView\<close> reads from it
  the fields \<^verbatim>\<open>accuracy_rate\<close>, \<^verbatim>\<open>total_tables\<close>, \<^verbatim>\<open>total_cells\<close>,
  \<^verbatim>\<open>validation_errors\<close>, \<^verbatim>\<open>csv_data\<close> and \<^verbatim>\<open>validation_results\<close>, so the field
  carrying the CSV output is named \<^verbatim>\<open>csv_data\<close>; and the stored result is never
  mutated after being returned: it is the same object after every sequence of actions
  other than \<^verbatim>\<open>SET_EXTRACTION_RESULTS\<close> and \<^verbatim>\<open>RESET_STATE\<close>, which replace it.
\<close>

theorem extraction_result_shape:
  "(\<forall>d \<in> set (dispatched_payloads ''SET_EXTRACTION_RESULTS'' (handleProcess ts f up ex)).
      ex = Resolved d
      \<and> truthy (read_prop d ''success'')
      \<and> (\<exists>kvs. d = JObj kvs \<and> ''success'' \<in> fst ` set kvs)
      \<and> extractionResults (dispatch_all s (dispatched (handleProcess ts f up ex))) = d
      \<and> ResultsView_destructure
           (extractionResults (dispatch_all s (dispatched (handleProcess ts f up ex))))
          = [(''accuracy_rate'', read_prop d ''accuracy_rate''),
             (''total_tables'', read_prop d ''total_tables''),
             (''total_cells'', read_prop d ''total_cells''),
             (''validation_errors'', read_prop d ''validation_errors''),
             (''csv_data'', read_prop d ''csv_data''),
             (''validation_results'', read_prop d ''validation_results'')]
      \<and> (\<forall>later. list_all keeps_results later \<longrightarrow>
            extractionResults
              (dispatch_all (dispatch_all s (dispatched (handleProcess ts f up ex))) later) = d))
   \<and> (truthy f \<and> get_prop u ''filepath'' = Some fp \<and> truthy fp
        \<and> truthy (read_prop r ''success'')
        \<longrightarrow> dispatched_payloads ''SET_EXTRACTION_RESULTS''
              (handleProcess ts f (Resolved u) (Resolved r)) = [r])"
proof -
  have A: "ex = Resolved d
      \<and> truthy (read_prop d ''success'')
      \<and> (\<exists>kvs. d = JObj kvs \<and> ''success'' \<in> fst ` set kvs)
      \<and> extractionResults (dispatch_all s (dispatched (handleProcess ts f up ex))) = d
      \<and> ResultsView_destructure
           (extractionResults (dispatch_all s (dispatched (handleProcess ts f up ex))))
          = [(''accuracy_rate'', read_prop d ''accuracy_rate''),
             (''total_tables'', read_prop d ''total_tables''),
             (''total_cells'', read_prop d ''total_cells''),
             (''validation_errors'', read_prop d ''validation_errors''),
             (''csv_data'', read_prop d ''csv_data''),
             (''validation_results'', read_prop d ''validation_results'')]
      \<and> (\<forall>later. list_all keeps_results later \<longrightarrow>
            extractionResults
              (dispatch_all (dispatch_all s (dispatched (handleProcess ts f up ex))) later) = d)"
    if m: "d \<in> set (dispatched_payloads ''SET_EXTRACTION_RESULTS'' (handleProcess ts f up ex))"
    for d
  proof -
    from m results_dispatched_cases [of ts f up ex]
    obtain u' fp' where c: "up = Resolved u'" "ex = Resolved d" "truthy f"
        "get_prop u' ''filepath'' = Some fp'" "truthy fp'" "truthy (read_prop d ''success'')"
      by auto
    have run: "dispatched (handleProcess ts f up ex)
           = [\<lparr>type = ''SET_PROCESSING_STATUS'', payload = JStr ''uploading''\<rparr>,
              \<lparr>type = ''SET_PROCESSING_STATUS'', payload = JStr ''processing''\<rparr>,
              \<lparr>type = ''SET_EXTRACTION_RESULTS'', payload = d\<rparr>,
              \<lparr>type = ''SET_ACCURACY_METRICS'',
                payload = JObj [(''accuracy_rate'', read_prop d ''accuracy_rate''),
                                (''total_cells'', read_prop d ''total_cells''),
                                (''validation_errors'', read_prop d ''validation_errors'')]\<rparr>]"
      unfolding c(1,2) using c(3-6) by (rule handleProcess_success_run)
    have st: "extractionResults (dispatch_all s (dispatched (handleProcess ts f up ex))) = d"
      by (simp add: run dispatch_all_def appReducer_def)
    have ds: "ResultsView_destructure d
          = [(''accuracy_rate'', read_prop d ''accuracy_rate''),
             (''total_tables'', read_prop d ''total_tables''),
             (''total_cells'', read_prop d ''total_cells''),
             (''validation_errors'', read_prop d ''validation_errors''),
             (''csv_data'', read_prop d ''csv_data''),
             (''validation_results'', read_prop d ''validation_results'')]"
      by (simp add: ResultsView_destructure_def ResultsView_fields_def)
    have later: "\<forall>later. list_all keeps_results later \<longrightarrow>
            extractionResults
              (dispatch_all (dispatch_all s (dispatched (handleProcess ts f up ex))) later) = d"
      by (simp add: dispatch_all_keeps_results st)
    from c(2,6) truthy_prop_obj [OF c(6)] st ds later show ?thesis
      by (simp only: simp_thms)
  qed
  have B: "truthy f \<and> get_prop u ''filepath'' = Some fp \<and> truthy fp
        \<and> truthy (read_prop r ''success'')
        \<longrightarrow> dispatched_payloads ''SET_EXTRACTION_RESULTS''
              (handleProcess ts f (Resolved u) (Resolved r)) = [r]"
    by (cases r) (auto simp: handleProcess_def try_block_def Let_def read_prop_def
        split: option.splits)
  from A B show ?thesis by blast
qed


theorem extraction_result_shape_witness:
  "dispatched_payloads ''SET_EXTRACTION_RESULTS''
       (handleProcess objectToString sample_file upload_ok (Resolved extraction_ok))
     = [extraction_ok]
   \<and> extractionResults (dispatch_all initialState
        (dispatched (handleProcess objectToString sample_file upload_ok (Resolved extraction_ok))))
       = extraction_ok
   \<and> map_of (ResultsView_destructure (extractionResults (dispatch_all initialState
        (dispatched (handleProcess objectToString sample_file upload_ok (Resolved extraction_ok))))))
        ''csv_data'' = Some (JStr (''h1,h2'' @ [newline] @ ''1,2''))
   \<and> list_all keeps_results [\<lparr>type = ''SET_ERROR'', payload = JStr ''late''\<rparr>]
   \<and> extractionResults (dispatch_all (dispatch_all initialState
        (dispatched (handleProcess objectToString sample_file upload_ok (Resolved extraction_ok))))
        [\<lparr>type = ''SET_ERROR'', payload = JStr ''late''\<rparr>]) = extraction_ok"
  using extraction_result_shape
      [where ts = objectToString and f = sample_file and up = upload_ok
         and ex = "Resolved extraction_ok" and s = initialState
         and u = "JObj [(''filepath'', JStr ''uploads/scan.pdf'')]"
         and fp = "JStr ''uploads/scan.pdf''" and r = extraction_ok]
  by (simp add: handleProcess_def try_block_def Let_def sample_file_def upload_ok_def
      extraction_ok_def read_prop_def dispatch_all_def appReducer_def initialState_def
      ResultsView_destructure_def ResultsView_fields_def keeps_results_def)


section \<open>The upload interface\<close>

text \<open>
  \<^verbatim>\<open>onDrop\<close> stores the first file of the list it is given, in the component and in
  the store, and dispatches at most one action; an empty list leaves the stored file and
  the store as they were. Which files reach the list is decided by the dropzone library
  from \<open>dropzoneOptions\<close>.
\<close>

lemma onDrop_first_accepted:
  "(truthy f \<longrightarrow>
      onDrop (f # fs) u = (f, [\<lparr>type = ''SET_UPLOADED_FILE'', payload = f\<rparr>])
      \<and> uploadedFile (dispatch_all s (snd (onDrop (f # fs) u))) = f)
   \<and> onDrop [] u = (u, [])
   \<and> dispatch_all s (snd (onDrop [] u)) = s
   \<and> length (snd (onDrop files u)) \<le> 1"
  by (simp add: onDrop_def dispatch_all_def appReducer_def Let_def)

section \<open>Overall progress\<close>

















section \<open>CSV text and its parse\<close>

lemma split_on_plain: "c \<notin> set s \<Longrightarrow> split_on c s = [s]"
  by (induction s) auto

lemma split_on_append: "c \<notin> set x \<Longrightarrow> split_on c (x @ c # rest) = x # split_on c rest"
  by (induction x) auto

lemma split_on_join:
  "xs \<noteq> [] \<Longrightarrow> \<forall>x \<in> set xs. c \<notin> set x \<Longrightarrow> split_on c (join c xs) = xs"
  by (induction c xs rule: join.induct) (auto simp: split_on_plain split_on_append)

lemma set_join: "set (join c xs) \<subseteq> insert c (\<Union>x \<in> set xs. set x)"
  by (induction c xs rule: join.induct) auto

lemma quote_plain_row:
  "list_all (\<lambda>cell. \<not> needs_quoting cell) row \<Longrightarrow> map quote_cell row = row"
  by (induction row) (auto simp: quote_cell_def)

lemma parse_plain_line:
  assumes "row \<noteq> []" "list_all (\<lambda>cell. \<not> needs_quoting cell) row"
  shows "map (filter (\<lambda>ch. ch \<noteq> dquote)) (split_on comma (join comma (map quote_cell row)))
           = row"
proof -
  from assms(2)
  have c: "\<forall>cell \<in> set row. comma \<notin> set cell" and q: "\<forall>cell \<in> set row. dquote \<notin> set cell"
    by (auto simp: list_all_iff needs_quoting_def)
  from assms(1) c have "split_on comma (join comma row) = row"
    by (rule split_on_join)
  moreover from q have "map (filter (\<lambda>ch. ch \<noteq> dquote)) row = row"
    by (induction row) (auto simp: filter_id_conv)
  ultimately show ?thesis
    by (simp add: quote_plain_row [OF assms(2)])
qed

lemma plain_line_no_newline:
  assumes "list_all (\<lambda>cell. \<not> needs_quoting cell) row"
  shows "newline \<notin> set (join comma (map quote_cell row))"
proof -
  from assms have "\<forall>cell \<in> set row. newline \<notin> set cell"
    by (auto simp: list_all_iff needs_quoting_def)
  moreover have "newline \<noteq> comma"
    by (simp add: newline_def comma_def)
  ultimately show ?thesis
    using set_join [of comma row] by (auto simp: quote_plain_row [OF assms])
qed

text \<open>
  Where no cell needs quoting, \<^verbatim>\<open>formatCSVData\<close> does recover the matrix from the
  generated text (the text must not be empty: an empty \<^verbatim>\<open>csv_data\<close> is falsy and
  parses to no rows).
\<close>

lemma formatCSVData_plain_roundtrip:
  assumes "plain_matrix matrix" "csv_serialize matrix \<noteq> []"
  shows "formatCSVData (JStr (csv_serialize matrix)) = Some matrix"
proof -
  let ?lines = "map (\<lambda>row. join comma (map quote_cell row)) matrix"
  from assms(1) have ne: "?lines \<noteq> []"
    by (simp add: plain_matrix_def)
  from assms(1) have "\<forall>l \<in> set ?lines. newline \<notin> set l"
    by (auto simp: plain_matrix_def list_all_iff intro!: plain_line_no_newline)
  with ne have s: "split_on newline (csv_serialize matrix) = ?lines"
    unfolding csv_serialize_def by (rule split_on_join)
  from assms(1)
  have "map (\<lambda>line. map (filter (\<lambda>ch. ch \<noteq> dquote)) (split_on comma line)) ?lines = matrix"
    by (auto simp: plain_matrix_def list_all_iff parse_plain_line intro!: map_idI)
  with s assms(2) show ?thesis
    by (simp add: formatCSVData_def)
qed

text \<open>
  Claim C1: parsing the generated CSV text with \<^verbatim>\<open>formatCSVData\<close> recovers the
  serialised matrix. The code at the matrix of one cell \<^verbatim>\<open>a,b\<close>: the generator quotes the
  cell; \<^verbatim>\<open>formatCSVData\<close> splits the line at the comma inside the quotes and then drops
  the quotes, so that one cell comes back as two. At the cell \<^verbatim>\<open>6"\<close> the doubled quote
  is dropped with the enclosing ones and the cell comes back as \<^verbatim>\<open>6\<close>.
\<close>

theorem formatCSVData_quoted_cell:
  "csv_serialize [[''a,b'']] = [dquote] @ ''a,b'' @ [dquote]
   \<and> formatCSVData (JStr (csv_serialize [[''a,b'']])) = Some [[''a'', ''b'']]
   \<and> formatCSVData (JStr (csv_serialize [[''a,b'']])) \<noteq> Some [[''a,b'']]
   \<and> formatCSVData (JStr (csv_serialize [[''6'' @ [dquote]]])) = Some [[''6'']]"
  by (simp add: csv_serialize_def quote_cell_def needs_quoting_def formatCSVData_def
      comma_def dquote_def newline_def)

section \<open>Accuracy rate\<close>




section \<open>Cell and error counts\<close>









section \<open>Consensus confidence\<close>

lemma max_confidence_Max:
  "cluster \<noteq> [] \<Longrightarrow> max_confidence cluster = Max (confidence ` set cluster)"
  by (induction cluster rule: max_confidence.induct) simp_all

lemma scenario_cluster: "cluster_tokens iou_threshold scenario_tokens = [scenario_tokens]"
  by (simp add: cluster_tokens_def spatial_order_def scenario_tokens_def iou_threshold_def
      iou_def Let_def)

lemma scenario_engines: "engines_of scenario_tokens = [0, 1, 2]"
  by (simp add: engines_of_def scenario_tokens_def)

lemma scenario_max_confidence: "max_confidence scenario_tokens = 9 / 10"
  by (simp add: scenario_tokens_def)

lemma scenario_text: "consensus_text prior scenario_tokens = ''Total''"
  by (simp add: consensus_text_def scenario_tokens_def)

text \<open>
  Claim C7. The consensus confidence of a cluster is the greatest confidence of its tokens
  plus a bonus proportional to agreement count / engines run, capped at 1, and so never
  exceeds 1. In the scenario of three engines reading \<^verbatim>\<open>Total\<close> at near-identical boxes
  with confidences 0.9, 0.85 and 0.4, the engine yields one consensus token, with text
  \<^verbatim>\<open>Total\<close>, confidence above 0.9 and agreement count 3, for every positive bonus factor
  and every reliability prior.
\<close>

theorem consensus_confidence_boost:
  assumes "cluster \<noteq> []" "0 < bonus" "0 < n"
  shows "cons_confidence (consensus_token bonus prior n cluster)
           = min 1 (Max (confidence ` set cluster)
                    + bonus * (real (agreement_count (consensus_token bonus prior n cluster))
                               / real n))
       \<and> cons_confidence (consensus_token bonus prior n cluster) \<le> 1
       \<and> (\<exists>c. consensus_engine bonus prior 3 scenario_tokens = [c]
             \<and> cons_text c = ''Total'' \<and> 9 / 10 < cons_confidence c \<and> agreement_count c = 3)"
proof -
  have 1: "cons_confidence (consensus_token bonus prior n cluster)
           = min 1 (Max (confidence ` set cluster)
                    + bonus * (real (agreement_count (consensus_token bonus prior n cluster))
                               / real n))"
    using assms(1) by (simp add: consensus_token_def consensus_confidence_def max_confidence_Max)
  have 2: "cons_confidence (consensus_token bonus prior n cluster) \<le> 1"
    by (simp add: consensus_token_def consensus_confidence_def)
  have "9 / 10 < consensus_confidence bonus 3 scenario_tokens"
    using assms(2)
    by (simp add: consensus_confidence_def scenario_engines scenario_max_confidence)
  then have 3: "\<exists>c. consensus_engine bonus prior 3 scenario_tokens = [c]
             \<and> cons_text c = ''Total'' \<and> 9 / 10 < cons_confidence c \<and> agreement_count c = 3"
    by (simp add: consensus_engine_def scenario_cluster consensus_token_def scenario_text
        scenario_engines)
  from 1 2 3 show ?thesis by (intro conjI)
qed

theorem consensus_confidence_boost_witness:
  "scenario_tokens \<noteq> [] \<and> (0::real) < 1 / 20 \<and> (0::nat) < 3
   \<and> consensus_engine (1 / 20) equal_prior 3 scenario_tokens
       = [\<lparr>cons_text = ''Total'', cons_confidence = 19 / 20, agreement_count = 3,
            contributing_engines = [0, 1, 2]\<rparr>]
   \<and> cons_confidence (consensus_token (1 / 20) equal_prior 3 scenario_tokens) \<le> 1"
proof -
  have n: "scenario_tokens \<noteq> []"
    by (simp add: scenario_tokens_def)
  show ?thesis
    using consensus_confidence_boost [of scenario_tokens "1 / 20" 3 equal_prior] n
    by (simp add: consensus_engine_def scenario_cluster consensus_token_def
        consensus_confidence_def scenario_text scenario_engines scenario_max_confidence)
qed

end
